theory Spec2Isabelle
  imports Complex_Main "HOL-Library.Word" "HOL-Library.List_Lexorder" "HOL-Library.Char_ord"
begin

unbundle bit_operations_syntax

section \<open>Python values\<close>

text \<open>
  The checkpoint utilities of \<^verbatim>\<open>common/ckpt_keras_utils.py\<close> read every hyperparameter
  from a dictionary of untyped Python objects, test most of them for truthiness only, and
  compare metric values with \<^verbatim>\<open><\<close>. The model keeps the values untyped.

  A Python float is \<open>NaN\<close>, an infinity or a finite number; a finite float is read as the
  real number it denotes, which is all that a comparison looks at.
\<close>

datatype pyfloat = NaN | NegInf | Finite real | PosInf

text \<open>
  \<open>PDatetime stamp secs\<close> is a \<^verbatim>\<open>datetime\<close> object: \<open>stamp\<close> is the text that
  \<^verbatim>\<open>strftime("%Y-%m-%d %H:%M:%S")\<close> prints for it and \<open>secs\<close> its position on the time line.
\<close>

datatype pyval =
    PNone
  | PBool bool
  | PInt int
  | PFloat pyfloat
  | PStr string
  | PDatetime string real

type_synonym pydict = "(string \<times> pyval) list"

text \<open>Truth value testing, as an \<^verbatim>\<open>if\<close>, \<^verbatim>\<open>and\<close> or \<^verbatim>\<open>not\<close> applies it.\<close>

fun truthy :: "pyval \<Rightarrow> bool" where
  "truthy PNone = False"
| "truthy (PBool b) = b"
| "truthy (PInt i) = (i \<noteq> 0)"
| "truthy (PFloat f) = (f \<noteq> Finite 0)"
| "truthy (PStr s) = (s \<noteq> [])"
| "truthy (PDatetime stamp secs) = True"

section \<open>Reading the hyperparameters\<close>

text \<open>
  \<^verbatim>\<open>return key in gParameters and gParameters[key]\<close>: Python's \<^verbatim>\<open>and\<close> gives its left
  operand when that is false and its right operand otherwise, so \<open>enabled\<close> returns
  \<^verbatim>\<open>False\<close> for a missing key and the stored value itself for a present one.
\<close>

definition enabled :: "pydict \<Rightarrow> string \<Rightarrow> pyval" where
  "enabled gParameters key =
     (case map_of gParameters key of None \<Rightarrow> PBool False | Some v \<Rightarrow> v)"

text \<open>\<^verbatim>\<open>return key in gParameters and not gParameters[key]\<close>: always a boolean.\<close>

definition disabled :: "pydict \<Rightarrow> string \<Rightarrow> bool" where
  "disabled gParameters key =
     (case map_of gParameters key of None \<Rightarrow> False | Some v \<Rightarrow> \<not> truthy v)"

definition param :: "pydict \<Rightarrow> string \<Rightarrow> pyval \<Rightarrow> pyval" where
  "param gParameters key dflt =
     (case map_of gParameters key of None \<Rightarrow> dflt | Some v \<Rightarrow> v)"

section \<open>Loggers\<close>

text \<open>
  A logger argument or field is \<open>Some Logger\<close>, a logger object, or \<open>None\<close>, Python's
  \<^verbatim>\<open>None\<close>, which the callback documents as the way to disable logging. The messages
  a logger receives are not kept; calling \<^verbatim>\<open>.info\<close> on \<^verbatim>\<open>None\<close> raises
  \<^verbatim>\<open>AttributeError\<close>.
\<close>

datatype logger = Logger

section \<open>Exceptions\<close>

text \<open>
  The module raises plain \<^verbatim>\<open>Exception\<close> objects with a message; the model keeps what
  the message is built from. The other constructors are the built-in exceptions that the
  operations of the module can raise on the values above.
  \<^item> \<open>Exception_save_best_stat stat keys\<close>: the \<^verbatim>\<open>raise\<close> of \<open>save_check\<close>, whose message
    names the tracked statistic and \<^verbatim>\<open>logs.keys()\<close>;
  \<^item> \<open>Exception_no_json\<close>: the \<^verbatim>\<open>raise\<close> of \<open>restart_json\<close>
    (\<^verbatim>\<open>model exists but not json!\<close>).
\<close>

datatype error =
    Exception_save_best_stat pyval "string list"
  | Exception_no_json
  | TypeError
  | KeyError string
  | FileNotFoundError
  | JSONDecodeError
  | OverflowError
  | ValueError
  | AttributeError

definition bind_err :: "error + 'a \<Rightarrow> ('a \<Rightarrow> error + 'b) \<Rightarrow> error + 'b" where
  "bind_err r f = (case r of Inl e \<Rightarrow> Inl e | Inr x \<Rightarrow> f x)"

section \<open>Comparison and formatting\<close>

text \<open>\<^verbatim>\<open>x < y\<close> on floats: false as soon as one side is \<open>NaN\<close>.\<close>

fun float_lt :: "pyfloat \<Rightarrow> pyfloat \<Rightarrow> bool" where
  "float_lt NaN y = False"
| "float_lt x NaN = False"
| "float_lt x NegInf = False"
| "float_lt NegInf y = True"
| "float_lt PosInf y = False"
| "float_lt (Finite x) PosInf = True"
| "float_lt (Finite x) (Finite y) = (x < y)"

text \<open>The numbers among the values: \<^verbatim>\<open>bool\<close> is a subclass of \<^verbatim>\<open>int\<close>.\<close>

fun num_of :: "pyval \<Rightarrow> pyfloat option" where
  "num_of (PBool b) = Some (Finite (of_bool b))"
| "num_of (PInt i) = Some (Finite (of_int i))"
| "num_of (PFloat f) = Some f"
| "num_of v = None"

text \<open>
  \<^verbatim>\<open>a < b\<close>: numbers compare by value (an \<^verbatim>\<open>int\<close> and a \<^verbatim>\<open>float\<close> exactly),
  strings lexicographically, datetimes by time; any other pair raises \<^verbatim>\<open>TypeError\<close>.
\<close>

fun py_lt :: "pyval \<Rightarrow> pyval \<Rightarrow> error + bool" where
  "py_lt (PStr s) (PStr t) = Inr (s < t)"
| "py_lt (PDatetime s x) (PDatetime t y) = Inr (x < y)"
| "py_lt a b =
     (case num_of a of
        None \<Rightarrow> Inl TypeError
      | Some x \<Rightarrow> (case num_of b of None \<Rightarrow> Inl TypeError | Some y \<Rightarrow> Inr (float_lt x y)))"

text \<open>
  Whether \<^verbatim>\<open>"%d" % v\<close> (and \<^verbatim>\<open>"%i" % v\<close>) can be formatted: an infinite float raises
  \<^verbatim>\<open>OverflowError\<close>, \<open>NaN\<close> raises \<^verbatim>\<open>ValueError\<close>, a value that is not a number
  \<^verbatim>\<open>TypeError\<close>. The formatted text only goes to the log and is not kept.
\<close>

fun fmt_d :: "pyval \<Rightarrow> error + unit" where
  "fmt_d (PBool b) = Inr ()"
| "fmt_d (PInt i) = Inr ()"
| "fmt_d (PFloat (Finite x)) = Inr ()"
| "fmt_d (PFloat NaN) = Inl ValueError"
| "fmt_d (PFloat f) = Inl OverflowError"
| "fmt_d v = Inl TypeError"

text \<open>
  Whether \<^verbatim>\<open>"%f" % v\<close> can be formatted: the value is converted to a float, which fails
  with \<^verbatim>\<open>OverflowError\<close> for an \<^verbatim>\<open>int\<close> that rounds beyond the largest double.
\<close>

fun fmt_f :: "pyval \<Rightarrow> error + unit" where
  "fmt_f (PBool b) = Inr ()"
| "fmt_f (PInt i) = (if \<bar>i\<bar> < 2 ^ 1024 - 2 ^ 970 then Inr () else Inl OverflowError)"
| "fmt_f (PFloat f) = Inr ()"
| "fmt_f v = Inl TypeError"

text \<open>
  \<^verbatim>\<open>logs\<close> has string keys, so only a string can be \<^verbatim>\<open>in logs.keys()\<close>;
  \<open>py_get logs k\<close> is \<open>None\<close> when \<^verbatim>\<open>k not in logs.keys()\<close> and the value
  \<^verbatim>\<open>logs[k]\<close> otherwise.
\<close>

fun py_get :: "pydict \<Rightarrow> pyval \<Rightarrow> pyval option" where
  "py_get logs (PStr k) = map_of logs k"
| "py_get logs v = None"

section \<open>The callback object\<close>

text \<open>
  The fields of \<^verbatim>\<open>CandleCheckpointCallback\<close>. \<open>logger\<close> is \<open>None\<close> when the callback
  was built with \<^verbatim>\<open>logger=None\<close>; its own \<^verbatim>\<open>info\<close> and \<^verbatim>\<open>debug\<close> methods test for
  that before they log. \<open>model\<close> is the Keras model the framework
  attaches to the callback, represented by the bytes that \<^verbatim>\<open>model.save\<close> writes for
  it. \<open>cksum_model\<close> is \<open>None\<close> until \<^verbatim>\<open>self.checksum\<close> has assigned it.
\<close>

record callback =
  logger :: "logger option"
  skip_epochs :: pyval
  save_best_only :: pyval
  save_best_stat :: pyval
  best_stat_last :: pyval
  save_weights_only :: pyval
  checksum_enabled :: pyval
  metadata :: pyval
  timestamp_last :: pyval
  clean :: pyval
  cksum_model :: "string option"
  model :: "8 word list"

text \<open>\<^verbatim>\<open>scan_params\<close>: the hyperparameters become fields, as they are.\<close>

definition scan_params :: "pydict \<Rightarrow> callback \<Rightarrow> callback" where
  "scan_params gParameters self =
     self\<lparr>skip_epochs := param gParameters ''skip_epochs'' (PInt 0),
          save_best_only := param gParameters ''save_best_only'' (PBool False),
          save_best_stat := param gParameters ''save_best_stat'' (PStr ''loss''),
          best_stat_last :=
            (if param gParameters ''best_stat_last'' PNone = PNone then PFloat PosInf
             else param gParameters ''best_stat_last'' PNone),
          save_weights_only := param gParameters ''save_weights_only'' (PBool True),
          checksum_enabled := param gParameters ''checksum'' (PBool True),
          metadata := param gParameters ''metadata'' PNone,
          timestamp_last := param gParameters ''timestamp_last'' PNone,
          clean := param gParameters ''clean'' (PBool False)\<rparr>"

text \<open>
  \<^verbatim>\<open>CandleCheckpointCallback(gParameters, logger)\<close> followed by the framework's
  \<^verbatim>\<open>set_model\<close>: a callback for the model \<open>m\<close>. The argument \<^verbatim>\<open>"DEFAULT"\<close> is replaced
  by a logger object, so \<open>lg\<close> is that object, a logger of the caller, or \<open>None\<close>.
\<close>

definition init_callback :: "pydict \<Rightarrow> logger option \<Rightarrow> 8 word list \<Rightarrow> callback" where
  "init_callback gParameters lg m =
     scan_params gParameters
       \<lparr>logger = lg, skip_epochs = PNone, save_best_only = PNone, save_best_stat = PNone,
        best_stat_last = PNone, save_weights_only = PNone, checksum_enabled = PNone,
        metadata = PNone, timestamp_last = PNone, clean = PNone,
        cksum_model = None, model = m\<rparr>"

text \<open>\<^verbatim>\<open>CandleCheckpointCallback(gParameters)\<close>, with the default logger.\<close>

definition new_callback :: "pydict \<Rightarrow> 8 word list \<Rightarrow> callback" where
  "new_callback gParameters m = init_callback gParameters (Some Logger) m"

section \<open>The save policy\<close>

text \<open>
  \<^verbatim>\<open>save_check(self, logs, epoch)\<close> returns a boolean and may assign
  \<^verbatim>\<open>self.best_stat_last\<close>: the model returns the boolean with the callback.
  The arguments of the \<^verbatim>\<open>debug\<close> calls are formatted whether or not a logger is set, so the
  formats that can raise are in the model.
\<close>

definition save_check :: "callback \<Rightarrow> pydict \<Rightarrow> int \<Rightarrow> error + (bool \<times> callback)" where
  "save_check self logs epoch =
     bind_err (py_lt (PInt epoch) (skip_epochs self)) (\<lambda>early.
       if early then bind_err (fmt_d (skip_epochs self)) (\<lambda>_. Inr (False, self))
       else if \<not> truthy (save_best_only self) then Inr (True, self)
       else
         (case py_get logs (save_best_stat self) of
            None \<Rightarrow> Inl (Exception_save_best_stat (save_best_stat self) (map fst logs))
          | Some current \<Rightarrow>
              bind_err (py_lt current (best_stat_last self)) (\<lambda>less.
              bind_err (if less then Inr False else py_lt (best_stat_last self) current)
                (\<lambda>greater.
              bind_err (fmt_f current) (\<lambda>_.
              bind_err (fmt_f (best_stat_last self)) (\<lambda>_.
                if less then Inr (True, self\<lparr>best_stat_last := current\<rparr>)
                else Inr (False, self)))))))"

text \<open>
  The training loop calls \<open>save_check\<close> once per epoch, on the callback the previous
  epoch left: \<open>save_checks\<close> collects the decisions for a list of epochs with their logs.
\<close>

fun save_checks :: "callback \<Rightarrow> (int \<times> pydict) list \<Rightarrow> error + (bool list \<times> callback)" where
  "save_checks self [] = Inr ([], self)"
| "save_checks self ((epoch, logs) # rest) =
     bind_err (save_check self logs epoch) (\<lambda>(b, self').
     bind_err (save_checks self' rest) (\<lambda>(bs, self'').
       Inr (b # bs, self'')))"

section \<open>The checksum\<close>

text \<open>
  Modelled from the spec: \<^verbatim>\<open>zlib.crc32\<close> is a function of the zlib library, which is
  not part of the repository. The spec calls it a 32-bit cyclic-redundancy accumulator;
  the definition is zlib's CRC-32, bit by bit: the running value is complemented on the
  way in and on the way out, each byte is folded into the low bits, and each of its eight
  bits shifts the register right, with the polynomial \<open>0xEDB88320\<close> added when a one
  falls out.
\<close>

definition crc_shift :: "32 word \<Rightarrow> 32 word" where
  "crc_shift c = (if bit c 0 then drop_bit 1 c XOR 0xEDB88320 else drop_bit 1 c)"

definition crc_update :: "32 word \<Rightarrow> 8 word \<Rightarrow> 32 word" where
  "crc_update c b = (crc_shift ^^ 8) (c XOR ucast b)"

definition crc32 :: "8 word list \<Rightarrow> 32 word \<Rightarrow> 32 word" where
  "crc32 chunk value = NOT (foldl crc_update (NOT value) chunk)"

text \<open>\<^verbatim>\<open>str(n)\<close> for a non-negative \<^verbatim>\<open>int\<close>: its decimal digits.\<close>

function py_str :: "nat \<Rightarrow> string" where
  "py_str n =
     (if n < 10 then [''0123456789'' ! n]
      else py_str (n div 10) @ [''0123456789'' ! (n mod 10)])"
  by pat_completeness auto
termination
  by (relation "measure (\<lambda>n. n)") auto

declare py_str.simps [simp del]

text \<open>
  The number that a string of decimal digits denotes, as \<^verbatim>\<open>int(s)\<close> reads it: what a
  reader of the descriptor gets back from the \<open>checksum\<close> field.
\<close>

definition decimal_value :: "string \<Rightarrow> nat" where
  "decimal_value s = foldl (\<lambda>n c. 10 * n + (of_char c - 48)) 0 s"

text \<open>
  The loop of \<^verbatim>\<open>checksum_file\<close>: \<^verbatim>\<open>fp.read(chunk_size)\<close> gives the next
  \<open>chunk_size\<close> bytes of the file, fewer at its end, and the loop stops at an empty chunk.
  \<open>rest\<close> is what is left to read.
\<close>

function read_chunks :: "nat \<Rightarrow> 8 word list \<Rightarrow> 32 word \<Rightarrow> nat \<Rightarrow> 32 word \<times> nat" where
  "read_chunks chunk_size rest checksum total_read =
     (if take chunk_size rest = [] then (checksum, total_read)
      else read_chunks chunk_size (drop chunk_size rest)
             (crc32 (take chunk_size rest) checksum)
             (total_read + length (take chunk_size rest)))"
  by pat_completeness auto
termination
  by (relation "measure (\<lambda>(chunk_size, rest, checksum, total_read). length rest)") auto

declare read_chunks.simps [simp del]

text \<open>
  \<^verbatim>\<open>checksum_file(logger, filename)\<close>, on the content of the file (\<open>None\<close> when there is
  no such file). After the loop it calls \<^verbatim>\<open>logger.info\<close> without a test, which raises
  \<^verbatim>\<open>AttributeError\<close> when the logger is \<^verbatim>\<open>None\<close>. The throughput it logs is computed
  from two readings of the wall clock and is not part of the model, here and in the
  other functions that log one.
\<close>

definition checksum_file :: "logger option \<Rightarrow> 8 word list option \<Rightarrow> error + string" where
  "checksum_file lg file =
     (case file of
        None \<Rightarrow> Inl FileNotFoundError
      | Some content \<Rightarrow>
          (case lg of
             None \<Rightarrow> Inl AttributeError
           | Some l \<Rightarrow>
               Inr (py_str (unat (fst (read_chunks (10 * 1024 * 1024) content 0 0))))))"

text \<open>The accumulator after a given sequence of chunks, whatever their sizes.\<close>

definition crc32_chunks :: "8 word list list \<Rightarrow> 32 word" where
  "crc32_chunks chunks = foldl (\<lambda>checksum chunk. crc32 chunk checksum) 0 chunks"

section \<open>The snapshot directories\<close>

text \<open>
  The module touches three directories under \<^verbatim>\<open>save/\<close> and two files in each. A file
  system state gives each directory its content, or \<open>None\<close> when it does not exist.
  \<^verbatim>\<open>ckpt-info.json\<close> holds the dictionary that \<^verbatim>\<open>json.load\<close> reads from it
  (\<open>JObject\<close>), or text that \<^verbatim>\<open>json.load\<close> rejects (\<open>JInvalid\<close>); a file whose
  JSON is not an object is not considered. Whether Keras can read the bytes of a
  \<^verbatim>\<open>model.h5\<close> back is not considered either: \<^verbatim>\<open>load_weights\<close> gives the model that the
  bytes stand for.
\<close>

datatype dirname = ckpt_work | ckpt_good | ckpt_old

datatype json_text = JObject pydict | JInvalid

record ckpt_dir =
  model_h5 :: "8 word list option"
  ckpt_info_json :: "json_text option"

type_synonym filesystem = "dirname \<Rightarrow> ckpt_dir option"

definition file_model_h5 :: "filesystem \<Rightarrow> dirname \<Rightarrow> 8 word list option" where
  "file_model_h5 s d = (case s d of None \<Rightarrow> None | Some c \<Rightarrow> model_h5 c)"

definition file_ckpt_info_json :: "filesystem \<Rightarrow> dirname \<Rightarrow> json_text option" where
  "file_ckpt_info_json s d = (case s d of None \<Rightarrow> None | Some c \<Rightarrow> ckpt_info_json c)"

text \<open>
  \<^verbatim>\<open>os.makedirs\<close>, \<^verbatim>\<open>shutil.rmtree\<close> and \<^verbatim>\<open>os.rename\<close>. Each is one step of the file
  system; a rename moves the directory with all its content at once. The module calls
  \<open>makedirs\<close> only for a directory that does not exist, \<open>rmtree\<close> only for one that
  exists, and \<open>rename\<close> only from a directory that exists to a name that is free.
\<close>

definition makedirs :: "dirname \<Rightarrow> filesystem \<Rightarrow> filesystem" where
  "makedirs d s = s(d \<mapsto> \<lparr>model_h5 = None, ckpt_info_json = None\<rparr>)"

definition rmtree :: "dirname \<Rightarrow> filesystem \<Rightarrow> filesystem" where
  "rmtree d s = s(d := None)"

definition rename :: "dirname \<Rightarrow> dirname \<Rightarrow> filesystem \<Rightarrow> filesystem" where
  "rename src dst s = s(dst := s src, src := None)"

section \<open>Writing a snapshot\<close>

text \<open>\<^verbatim>\<open>json.dump\<close> raises \<^verbatim>\<open>TypeError\<close> on a value it cannot serialise.\<close>

fun json_serializable :: "pyval \<Rightarrow> bool" where
  "json_serializable (PDatetime stamp secs) = False"
| "json_serializable v = True"

text \<open>
  \<^verbatim>\<open>self.checksum(dir_work)\<close>: the callback's logger goes to \<open>checksum_file\<close> as it
  is, \<^verbatim>\<open>None\<close> included.
\<close>

definition checksum :: "callback \<Rightarrow> dirname \<Rightarrow> filesystem \<Rightarrow> error + callback" where
  "checksum self dir_work s =
     (if truthy (checksum_enabled self)
      then bind_err (checksum_file (logger self) (file_model_h5 s dir_work))
             (\<lambda>c. Inr (self\<lparr>cksum_model := Some c\<rparr>))
      else Inr (self\<lparr>cksum_model := Some ''__DISABLED__''\<rparr>))"

text \<open>
  \<^verbatim>\<open>write_json\<close>, for the descriptor in directory \<open>dir\<close>. \<open>now\<close> is the reading of
  \<^verbatim>\<open>datetime.now()\<close>: its formatted text and its position on the time line. The result is
  the file system after the call with the callback, or the exception. The file is opened
  for writing before \<^verbatim>\<open>json.dump\<close> runs, so a dump that fails leaves text that is not JSON.
\<close>

definition write_json ::
  "callback \<Rightarrow> dirname \<Rightarrow> int \<Rightarrow> string \<times> real \<Rightarrow> filesystem \<Rightarrow> filesystem \<times> (error + callback)" where
  "write_json self dir epoch now s =
     (case cksum_model self of
        None \<Rightarrow> (s, Inl AttributeError)
      | Some cksum \<Rightarrow>
          (case (case timestamp_last self of
                   PNone \<Rightarrow> Inr (PStr ''__FIRST__'')
                 | PDatetime stamp secs \<Rightarrow> Inr (PFloat (Finite (snd now - secs)))
                 | _ \<Rightarrow> Inl TypeError) of
             Inl e \<Rightarrow> (s, Inl e)
           | Inr time_elapsed \<Rightarrow>
               (let D = [(''epoch'', PInt epoch),
                         (''save_best_only'', save_best_only self),
                         (''save_best_stat'', save_best_stat self),
                         (''best_stat_last'', best_stat_last self),
                         (''model_file'', PStr ''model.h5''),
                         (''checksum'', PStr cksum),
                         (''timestamp'', PStr (fst now)),
                         (''time_elapsed'', time_elapsed),
                         (''metadata'', metadata self)];
                    self' = self\<lparr>timestamp_last := PDatetime (fst now) (snd now)\<rparr>
                in case s dir of
                     None \<Rightarrow> (s, Inl FileNotFoundError)
                   | Some c \<Rightarrow>
                       if list_all (\<lambda>(k, v). json_serializable v) D
                       then (s(dir \<mapsto> c\<lparr>ckpt_info_json := Some (JObject D)\<rparr>), Inr self')
                       else (s(dir \<mapsto> c\<lparr>ckpt_info_json := Some JInvalid\<rparr>), Inl TypeError))))"

text \<open>
  \<^verbatim>\<open>write_model\<close>: the model is saved to \<^verbatim>\<open>model.h5\<close>, checksummed, and described in
  \<^verbatim>\<open>ckpt-info.json\<close>. The result lists the file system after the save and after the
  descriptor is written (only the states it reached, when it raises).
\<close>

definition write_model ::
  "callback \<Rightarrow> dirname \<Rightarrow> int \<Rightarrow> string \<times> real \<Rightarrow> filesystem \<Rightarrow> filesystem list \<times> (error + callback)" where
  "write_model self dir_work epoch now s =
     (case s dir_work of
        None \<Rightarrow> ([], Inl FileNotFoundError)
      | Some c \<Rightarrow>
          (let s1 = s(dir_work \<mapsto> c\<lparr>model_h5 := Some (model self)\<rparr>)
           in case checksum self dir_work s1 of
                Inl e \<Rightarrow> ([s1], Inl e)
              | Inr self1 \<Rightarrow>
                  (case write_json self1 dir_work epoch now s1 of
                     (s2, r) \<Rightarrow> ([s1, s2], r))))"

text \<open>
  Lines 150 to 164 of \<^verbatim>\<open>on_epoch_end\<close>, the rotation: the file system after each of
  its four steps (a step whose guard is false leaves the state as it is).
\<close>

definition rotate_dirs :: "callback \<Rightarrow> filesystem \<Rightarrow> filesystem list" where
  "rotate_dirs self s =
     (let s1 = (if s ckpt_old \<noteq> None then rmtree ckpt_old s else s);
          do_clean = (if s1 ckpt_good \<noteq> None then clean self else PBool False);
          s2 = (if s1 ckpt_good \<noteq> None then rename ckpt_good ckpt_old s1 else s1);
          s3 = rename ckpt_work ckpt_good s2;
          s4 = (if truthy do_clean then rmtree ckpt_old s3 else s3)
      in [s1, s2, s3, s4])"

text \<open>
  \<^verbatim>\<open>on_epoch_end(self, epoch, logs)\<close>. The first component lists the states of the file
  system in order: the initial one, the one after \<open>makedirs\<close>, those of \<open>write_model\<close>
  and those of the rotation. A crash of the process leaves the disk in one of them. The
  second component is the callback after the call, or the exception.
\<close>

definition on_epoch_end ::
  "callback \<Rightarrow> int \<Rightarrow> pydict \<Rightarrow> string \<times> real \<Rightarrow> filesystem \<Rightarrow> filesystem list \<times> (error + callback)" where
  "on_epoch_end self epoch logs now s =
     (let s1 = (if s ckpt_work = None then makedirs ckpt_work s else s)
      in case save_check self logs epoch of
           Inl e \<Rightarrow> ([s, s1], Inl e)
         | Inr (False, self1) \<Rightarrow> ([s, s1], Inr self1)
         | Inr (True, self1) \<Rightarrow>
             (case write_model self1 ckpt_work epoch now s1 of
                (tr, Inl e) \<Rightarrow> (s # s1 # tr, Inl e)
              | (tr, Inr self2) \<Rightarrow> (s # s1 # tr @ rotate_dirs self2 (last tr), Inr self2)))"

text \<open>
  A descriptor \<open>J\<close> matches the weights beside it when its \<open>checksum\<close> field is the
  checksum of the weights file or, for a callback with checksumming switched off, the
  sentinel that \<^verbatim>\<open>self.checksum\<close> stores then.
\<close>

definition descriptor_matches :: "pyval \<Rightarrow> 8 word list \<Rightarrow> pydict \<Rightarrow> bool" where
  "descriptor_matches cksum_enabled weights J =
     (if truthy cksum_enabled
      then (case checksum_file (Some Logger) (Some weights) of
              Inl e \<Rightarrow> False
            | Inr c \<Rightarrow> map_of J ''checksum'' = Some (PStr c))
      else map_of J ''checksum'' = Some (PStr ''__DISABLED__''))"

section \<open>Restarting\<close>

text \<open>
  \<^verbatim>\<open>restart_json(gParameters, logger, directory)\<close>. A missing descriptor is reported
  with \<^verbatim>\<open>logger.info\<close> first. When the descriptor is missing and
  \<open>require_json\<close> is disabled, control reaches \<^verbatim>\<open>open(json_file)\<close>, which raises
  \<^verbatim>\<open>FileNotFoundError\<close>. On a checksum mismatch the argument of \<^verbatim>\<open>Exception\<close> is
  \<^verbatim>\<open>"checksum mismatch! directory: " % directory\<close>, a format without a conversion applied
  to a string: evaluating it raises \<^verbatim>\<open>TypeError\<close> before the \<^verbatim>\<open>Exception\<close> is built.
\<close>

definition restart_json ::
  "pydict \<Rightarrow> logger option \<Rightarrow> dirname \<Rightarrow> filesystem \<Rightarrow> error + pydict" where
  "restart_json gParameters lg directory s =
     (case file_ckpt_info_json s directory of
        None \<Rightarrow>
          if lg = None then Inl AttributeError
          else if \<not> disabled gParameters ''require_json'' then Inl Exception_no_json
          else Inl FileNotFoundError
      | Some JInvalid \<Rightarrow> Inl JSONDecodeError
      | Some (JObject J) \<Rightarrow>
          if \<not> disabled gParameters ''checksum'' then
            bind_err (checksum_file lg (file_model_h5 s directory)) (\<lambda>checksum.
              case map_of J ''checksum'' of
                None \<Rightarrow> Inl (KeyError ''checksum'')
              | Some recorded \<Rightarrow>
                  if PStr checksum \<noteq> recorded then Inl TypeError else Inr J)
          else Inr J)"

text \<open>
  \<^verbatim>\<open>restart(gParameters, model)\<close>, which logs to a logger of its own, obtained from
  \<^verbatim>\<open>logging.getLogger\<close>: the result is the value returned (\<open>None\<close> or the
  descriptor) with the model after the call, which is the model read from \<^verbatim>\<open>model.h5\<close>
  when \<^verbatim>\<open>load_weights\<close> ran.
\<close>

definition restart ::
  "pydict \<Rightarrow> 8 word list \<Rightarrow> filesystem \<Rightarrow> error + (pydict option \<times> 8 word list)" where
  "restart gParameters m s =
     (if disabled gParameters ''restart'' then Inr (None, m)
      else
        (case file_model_h5 s ckpt_good of
           None \<Rightarrow> Inr (None, m)
         | Some weights \<Rightarrow>
             bind_err (restart_json gParameters (Some Logger) ckpt_good s) (\<lambda>result.
               case map_of result ''epoch'' of
                 None \<Rightarrow> Inl (KeyError ''epoch'')
               | Some epoch \<Rightarrow>
                   (case map_of result ''timestamp'' of
                      None \<Rightarrow> Inl (KeyError ''timestamp'')
                    | Some timestamp \<Rightarrow>
                        bind_err (fmt_d epoch) (\<lambda>_. Inr (Some result, weights))))))"

section \<open>Best-only saving, in the words of the specification\<close>

text \<open>
  The words of the claim about best-only saving, on the sequence of values of the tracked
  metric: a value is accepted when it is strictly less than the minimum of the values
  accepted before it, and the minimum of no value is positive infinity. \<open>accepted\<close> lists
  the accepted values, the latest first; the result is the list of decisions with the
  values accepted at the end.
\<close>

definition float_min :: "pyfloat \<Rightarrow> pyfloat \<Rightarrow> pyfloat" where
  "float_min a b = (if float_lt b a then b else a)"

definition spec_minimum :: "pyfloat list \<Rightarrow> pyfloat" where
  "spec_minimum accepted = foldr float_min accepted PosInf"

fun spec_should_save :: "pyfloat list \<Rightarrow> pyfloat list \<Rightarrow> bool list \<times> pyfloat list" where
  "spec_should_save accepted [] = ([], accepted)"
| "spec_should_save accepted (x # xs) =
     (if float_lt x (spec_minimum accepted)
      then (case spec_should_save (x # accepted) xs of (bs, acc) \<Rightarrow> (True # bs, acc))
      else (case spec_should_save accepted xs of (bs, acc) \<Rightarrow> (False # bs, acc)))"

section \<open>Auxiliary facts\<close>

lemma bind_err_simps [simp]:
  "bind_err (Inl e) f = Inl e"
  "bind_err (Inr x) f = f x"
  by (simp_all add: bind_err_def)

subsection \<open>The checksum\<close>

lemma crc32_Nil: "crc32 [] v = v"
  by (simp add: crc32_def)

lemma crc32_append: "crc32 (a @ b) v = crc32 b (crc32 a v)"
  by (simp add: crc32_def)

lemma foldl_crc32_concat:
  "foldl (\<lambda>checksum chunk. crc32 chunk checksum) v chunks = crc32 (concat chunks) v"
  by (induction chunks arbitrary: v) (simp_all add: crc32_Nil crc32_append)

lemma read_chunks_crc32:
  "0 < chunk_size \<Longrightarrow> fst (read_chunks chunk_size rest c t) = crc32 rest c"
proof (induction chunk_size rest c t rule: read_chunks.induct)
  case (1 chunk_size rest checksum total_read)
  show ?case
  proof (cases "take chunk_size rest = []")
    case True
    with "1.prems" have "rest = []" by simp
    then show ?thesis by (subst read_chunks.simps) (simp add: crc32_Nil)
  next
    case False
    have "fst (read_chunks chunk_size rest checksum total_read) =
          crc32 (drop chunk_size rest) (crc32 (take chunk_size rest) checksum)"
      using False "1.IH" "1.prems" by (subst read_chunks.simps) simp
    also have "\<dots> = crc32 (take chunk_size rest @ drop chunk_size rest) checksum"
      by (simp only: crc32_append)
    finally show ?thesis by simp
  qed
qed

lemma checksum_file_crc32:
  "checksum_file lg (Some content) =
     (if lg = None then Inl AttributeError else Inr (py_str (unat (crc32 content 0))))"
  by (simp add: checksum_file_def read_chunks_crc32 split: option.split)

lemma digit_nth:
  assumes "n < 10"
  shows "of_char (''0123456789'' ! n) = 48 + n"
    and "''0123456789'' ! n \<in> set ''0123456789''"
proof -
  from assms have "n \<in> {0, 1, 2, 3, 4, 5, 6, 7, 8, 9}" by auto
  then show "of_char (''0123456789'' ! n) = 48 + n"
    and "''0123456789'' ! n \<in> set ''0123456789''"
    by auto
qed

lemma decimal_value_snoc:
  "decimal_value (s @ [c]) = 10 * decimal_value s + (of_char c - 48)"
  by (simp add: decimal_value_def)

lemma decimal_value_py_str: "decimal_value (py_str n) = n"
proof (induction n rule: py_str.induct)
  case (1 n)
  show ?case
  proof (cases "n < 10")
    case True
    then show ?thesis
      by (subst py_str.simps) (simp add: decimal_value_def digit_nth(1))
  next
    case False
    have "n mod 10 < 10" by simp
    with False "1.IH" show ?thesis
      by (subst py_str.simps) (simp add: decimal_value_snoc digit_nth(1))
  qed
qed

lemma digits_py_str: "list_all (\<lambda>c. c \<in> set ''0123456789'') (py_str n)"
proof (induction n rule: py_str.induct)
  case (1 n)
  show ?case
  proof (cases "n < 10")
    case True
    then show ?thesis
      using digit_nth(2) [of n] by (subst py_str.simps) simp
  next
    case False
    have "n mod 10 < 10" by simp
    with False "1.IH" digit_nth(2) [of "n mod 10"] show ?thesis
      by (subst py_str.simps) simp
  qed
qed

lemma crc32_bytes123: "crc32 [49, 50, 51] 0 = 2286445522"
  by code_simp

subsection \<open>The callback and the save policy\<close>

lemma new_callback_fields:
  "skip_epochs (new_callback g m) = param g ''skip_epochs'' (PInt 0)"
  "save_best_only (new_callback g m) = param g ''save_best_only'' (PBool False)"
  "save_best_stat (new_callback g m) = param g ''save_best_stat'' (PStr ''loss'')"
  "best_stat_last (new_callback g m) =
     (if param g ''best_stat_last'' PNone = PNone then PFloat PosInf
      else param g ''best_stat_last'' PNone)"
  "checksum_enabled (new_callback g m) = param g ''checksum'' (PBool True)"
  "metadata (new_callback g m) = param g ''metadata'' PNone"
  "timestamp_last (new_callback g m) = param g ''timestamp_last'' PNone"
  "clean (new_callback g m) = param g ''clean'' (PBool False)"
  "cksum_model (new_callback g m) = None"
  "model (new_callback g m) = m"
  "logger (new_callback g m) = Some Logger"
  by (simp_all add: new_callback_def init_callback_def scan_params_def)

lemma float_lt_asym: "float_lt x y \<Longrightarrow> \<not> float_lt y x"
  by (cases x; cases y) simp_all

lemma spec_minimum_Cons:
  "float_lt x (spec_minimum accepted) \<Longrightarrow> spec_minimum (x # accepted) = x"
  by (simp add: spec_minimum_def float_min_def float_lt_asym)

lemma save_check_step:
  assumes "skip_epochs self = PInt n" and "truthy (save_best_only self)"
    and "n \<le> epoch" and "py_get logs (save_best_stat self) = Some (PFloat x)"
  shows "save_check (self\<lparr>best_stat_last := PFloat b\<rparr>) logs epoch =
           Inr (float_lt x b, self\<lparr>best_stat_last := PFloat (if float_lt x b then x else b)\<rparr>)"
  using assms by (simp add: save_check_def)

lemma save_checks_spec:
  assumes "skip_epochs self = PInt n" and "truthy (save_best_only self)"
  shows "list_all2 (\<lambda>(epoch, logs) x.
            n \<le> epoch \<and> py_get logs (save_best_stat self) = Some (PFloat x)) inputs xs \<Longrightarrow>
         save_checks (self\<lparr>best_stat_last := PFloat (spec_minimum accepted)\<rparr>) inputs =
           Inr (fst (spec_should_save accepted xs),
                self\<lparr>best_stat_last :=
                  PFloat (spec_minimum (snd (spec_should_save accepted xs)))\<rparr>)"
proof (induction inputs arbitrary: xs accepted)
  case Nil
  then show ?case by simp
next
  case (Cons input inputs)
  obtain epoch logs where input: "input = (epoch, logs)" by (cases input)
  from Cons.prems obtain x xs' where xs: "xs = x # xs'"
    and here: "n \<le> epoch" "py_get logs (save_best_stat self) = Some (PFloat x)"
    and rest: "list_all2 (\<lambda>(epoch, logs) x.
            n \<le> epoch \<and> py_get logs (save_best_stat self) = Some (PFloat x)) inputs xs'"
    by (auto simp: input list_all2_Cons1)
  have step: "save_check (self\<lparr>best_stat_last := PFloat (spec_minimum accepted)\<rparr>) logs epoch =
      Inr (float_lt x (spec_minimum accepted),
           self\<lparr>best_stat_last := PFloat (if float_lt x (spec_minimum accepted) then x
                                            else spec_minimum accepted)\<rparr>)"
    by (rule save_check_step [OF assms here])
  show ?case
  proof (cases "float_lt x (spec_minimum accepted)")
    case True
    then have "spec_minimum (x # accepted) = x" by (rule spec_minimum_Cons)
    with True step Cons.IH [OF rest, of "x # accepted"] show ?thesis
      by (simp add: input xs split: prod.split)
  next
    case False
    with step Cons.IH [OF rest, of accepted] show ?thesis
      by (simp add: input xs split: prod.split)
  qed
qed

lemma spec_minimum_Nil: "spec_minimum [] = PosInf"
  by (simp add: spec_minimum_def)

subsection \<open>Restarting\<close>

lemma crc32_byte0: "crc32 [0] 0 = 3523407757"
  by code_simp

lemma crc32_byte1: "crc32 [1] 0 = 2768625435"
  by code_simp

lemma checksum_file_byte0: "checksum_file (Some Logger) (Some [0]) = Inr ''3523407757''"
  by (simp add: checksum_file_crc32 crc32_byte0 py_str.simps)

lemma checksum_file_byte1: "checksum_file (Some Logger) (Some [1]) = Inr ''2768625435''"
  by (simp add: checksum_file_crc32 crc32_byte1 py_str.simps)

lemma restart_json_ok:
  assumes "file_ckpt_info_json s d = Some (JObject J)"
    and "disabled g ''checksum'' \<or>
         (checksum_file (Some Logger) (file_model_h5 s d) = Inr c \<and> map_of J ''checksum'' = Some (PStr c))"
  shows "restart_json g (Some Logger) d s = Inr J"
  using assms by (auto simp: restart_json_def)

lemma restart_loads:
  assumes "\<not> disabled g ''restart''"
    and "file_model_h5 s ckpt_good = Some weights"
    and "file_ckpt_info_json s ckpt_good = Some (JObject J)"
    and "disabled g ''checksum'' \<or>
         (checksum_file (Some Logger) (Some weights) = Inr c \<and> map_of J ''checksum'' = Some (PStr c))"
    and "map_of J ''epoch'' = Some (PInt e)"
    and "map_of J ''timestamp'' = Some t"
  shows "restart g m s = Inr (Some J, weights)"
proof -
  have "restart_json g (Some Logger) ckpt_good s = Inr J"
    using assms(2-4) by (intro restart_json_ok [where c = c]) simp_all
  then show ?thesis
    using assms(1,2,5,6) by (simp add: restart_def)
qed




lemma restart_mismatch:
  assumes "\<not> disabled g ''restart''" and "\<not> disabled g ''checksum''"
    and "file_model_h5 s ckpt_good = Some weights"
    and "file_ckpt_info_json s ckpt_good = Some (JObject J)"
    and "checksum_file (Some Logger) (Some weights) = Inr c"
    and "map_of J ''checksum'' = Some recorded" and "recorded \<noteq> PStr c"
  shows "restart g m s = Inl TypeError"
  using assms by (auto simp: restart_def restart_json_def)

subsection \<open>Writing a snapshot\<close>

lemma save_check_fields:
  assumes "save_check self logs epoch = Inr (b, self1)"
  shows "model self1 = model self \<and> checksum_enabled self1 = checksum_enabled self
         \<and> clean self1 = clean self"
  using assms
  by (auto simp: save_check_def bind_err_def split: sum.splits if_splits option.splits)

lemma ckpt_dir_updates:
  "(c :: ckpt_dir)\<lparr>model_h5 := a, ckpt_info_json := b\<rparr> = \<lparr>model_h5 = a, ckpt_info_json = b\<rparr>"
  by (cases c) simp

lemma write_json_Inr:
  assumes "write_json self d epoch now s = (s2, Inr self2)"
  shows "\<exists>c cks J. cksum_model self = Some cks \<and> s d = Some c
           \<and> s2 = s(d \<mapsto> c\<lparr>ckpt_info_json := Some (JObject J)\<rparr>)
           \<and> map_of J ''checksum'' = Some (PStr cks)
           \<and> map_of J ''epoch'' = Some (PInt epoch)
           \<and> map_of J ''timestamp'' = Some (PStr (fst now))
           \<and> clean self2 = clean self"
proof -
  from assms obtain cks where cks: "cksum_model self = Some cks"
    by (cases "cksum_model self") (auto simp: write_json_def)
  from assms obtain c where c: "s d = Some c"
    by (cases "s d") (auto simp: write_json_def cks Let_def split: sum.splits)
  from assms show ?thesis
    by (auto simp: write_json_def cks c Let_def split: sum.splits if_splits)
qed

lemma write_model_Inr:
  assumes "write_model self d epoch now s = (tr, Inr self2)"
  shows "\<exists>c J. s d = Some c
           \<and> tr = [s(d \<mapsto> c\<lparr>model_h5 := Some (model self)\<rparr>),
                   s(d \<mapsto> \<lparr>model_h5 = Some (model self),
                            ckpt_info_json = Some (JObject J)\<rparr>)]
           \<and> descriptor_matches (checksum_enabled self) (model self) J
           \<and> map_of J ''epoch'' = Some (PInt epoch)
           \<and> map_of J ''timestamp'' = Some (PStr (fst now))
           \<and> clean self2 = clean self"
proof -
  from assms obtain c where c: "s d = Some c"
    by (cases "s d") (auto simp: write_model_def)
  let ?s1 = "s(d \<mapsto> c\<lparr>model_h5 := Some (model self)\<rparr>)"
  from assms c obtain self1 where ck: "checksum self d ?s1 = Inr self1"
    by (cases "checksum self d ?s1") (auto simp: write_model_def Let_def)
  from assms c ck obtain s2 where wj: "write_json self1 d epoch now ?s1 = (s2, Inr self2)"
    and tr: "tr = [?s1, s2]"
    by (auto simp: write_model_def Let_def split: prod.splits)
  from ck have f1: "clean self1 = clean self"
    and cm: "cksum_model self1 =
       Some (if truthy (checksum_enabled self)
             then py_str (unat (crc32 (model self) 0)) else ''__DISABLED__'')"
    by (auto simp: checksum_def file_model_h5_def checksum_file_crc32 split: if_splits)
  from write_json_Inr [OF wj] cm obtain J where
    s2: "s2 = ?s1(d \<mapsto> (c\<lparr>model_h5 := Some (model self)\<rparr>)\<lparr>ckpt_info_json := Some (JObject J)\<rparr>)"
    and J: "map_of J ''checksum'' =
       Some (PStr (if truthy (checksum_enabled self)
             then py_str (unat (crc32 (model self) 0)) else ''__DISABLED__''))"
       "map_of J ''epoch'' = Some (PInt epoch)"
       "map_of J ''timestamp'' = Some (PStr (fst now))"
    and f2: "clean self2 = clean self1"
    by auto
  have "s2 = s(d \<mapsto> \<lparr>model_h5 = Some (model self), ckpt_info_json = Some (JObject J)\<rparr>)"
    by (simp add: s2 ckpt_dir_updates)
  moreover have "descriptor_matches (checksum_enabled self) (model self) J"
    using J(1) by (simp add: descriptor_matches_def checksum_file_crc32)
  ultimately show ?thesis
    using c tr J f1 f2 by (intro exI [of _ c] exI [of _ J]) simp
qed

lemma rotate_dirs_states:
  "rotate_dirs self s =
     [s(ckpt_old := None),
      s(ckpt_old := s ckpt_good, ckpt_good := None),
      s(ckpt_old := s ckpt_good, ckpt_good := s ckpt_work, ckpt_work := None),
      s(ckpt_old := (if truthy (clean self) then None else s ckpt_good),
        ckpt_good := s ckpt_work, ckpt_work := None)]"
  by (auto simp: rotate_dirs_def Let_def rmtree_def rename_def fun_eq_iff)

lemma truthy_param_checksum:
  "truthy (param g key (PBool True)) = (\<not> disabled g key)"
  by (simp add: param_def disabled_def split: option.split)


lemma new_callback_save_check:
  "save_check (new_callback [] m) logs 4 = Inr (True, new_callback [] m)"
  by (simp add: save_check_def new_callback_fields param_def)

lemma write_model_without_logger:
  assumes "logger self = None" and "truthy (checksum_enabled self)" and "s d = Some c"
  shows "write_model self d epoch now s =
           ([s(d \<mapsto> c\<lparr>model_h5 := Some (model self)\<rparr>)], Inl AttributeError)"
  using assms
  by (simp add: write_model_def checksum_def file_model_h5_def checksum_file_crc32)

lemma clean_callback_save_check:
  "save_check (new_callback [(''clean'', PBool True)] m) logs 4 =
     Inr (True, new_callback [(''clean'', PBool True)] m)"
  by (simp add: save_check_def new_callback_fields param_def)

lemma on_epoch_end_example:
  "snd (on_epoch_end (new_callback [(''clean'', PBool True)] [1]) 4
          [(''loss'', PFloat (Finite 1))] (''2020-01-02 00:00:00'', 86400)
          ((\<lambda>d. None)
             (ckpt_good \<mapsto>
                \<lparr>model_h5 = Some [0],
                 ckpt_info_json = Some (JObject [(''epoch'', PInt 3),
                   (''checksum'', PStr ''3523407757''),
                   (''timestamp'', PStr ''2020-01-01 00:00:00'')])\<rparr>,
              ckpt_old \<mapsto>
                \<lparr>model_h5 = Some [2],
                 ckpt_info_json = Some (JObject [(''epoch'', PInt 2),
                   (''checksum'', PStr ''__DISABLED__''),
                   (''timestamp'', PStr ''2019-12-31 00:00:00'')])\<rparr>))) =
     Inr ((new_callback [(''clean'', PBool True)] [1])
            \<lparr>timestamp_last := PDatetime ''2020-01-02 00:00:00'' 86400,
             cksum_model := Some ''2768625435''\<rparr>)"
  by (simp add: on_epoch_end_def clean_callback_save_check write_model_def checksum_def
      write_json_def new_callback_fields param_def makedirs_def file_model_h5_def
      checksum_file_byte1 Let_def)

section \<open>The claims\<close>

subsection \<open>The tri-state predicates\<close>

text \<open>
  Claim C9. \<open>enabled\<close> gives a true value exactly when the key is present with a truthy
  value, \<open>disabled\<close> gives \<open>True\<close> exactly when the key is present with a falsy value, and
  for a key that is absent both give false.
\<close>

theorem enabled_disabled_tristate:
  "truthy (enabled gParameters key) = (\<exists>v. map_of gParameters key = Some v \<and> truthy v)
   \<and> disabled gParameters key = (\<exists>v. map_of gParameters key = Some v \<and> \<not> truthy v)
   \<and> (map_of gParameters key = None \<longrightarrow>
         enabled gParameters key = PBool False \<and> \<not> disabled gParameters key)"
  by (simp add: enabled_def disabled_def split: option.split)

theorem enabled_disabled_tristate_witness:
  "map_of [(''checksum'', PBool False)] ''restart'' = None
   \<and> enabled [(''checksum'', PBool False)] ''restart'' = PBool False
   \<and> \<not> disabled [(''checksum'', PBool False)] ''restart''
   \<and> disabled [(''checksum'', PBool False)] ''checksum''
   \<and> \<not> truthy (enabled [(''checksum'', PBool False)] ''checksum'')"
  using enabled_disabled_tristate [of "[(''checksum'', PBool False)]" "''restart''"]
    enabled_disabled_tristate [of "[(''checksum'', PBool False)]" "''checksum''"]
  by simp

subsection \<open>The checksum of a file\<close>

text \<open>
  Claim C7. Folding the chunks of any partition of a byte sequence through \<open>crc32\<close>,
  from 0, gives the same accumulator as the whole sequence in one chunk. The loop of
  \<open>checksum_file\<close> reads such a partition, whatever the chunk size, so its result
  depends on the content of the file only: it is that accumulator as a string, namely
  its decimal digits, which read back as a number give the accumulator again.
\<close>

theorem checksum_chunking_independent:
  "crc32_chunks chunks = crc32_chunks [concat chunks]
   \<and> (0 < chunk_size \<longrightarrow>
        fst (read_chunks chunk_size (concat chunks) 0 0) = crc32_chunks chunks)
   \<and> checksum_file (Some Logger) (Some (concat chunks)) =
       Inr (py_str (unat (crc32_chunks chunks)))
   \<and> decimal_value (py_str n) = n
   \<and> list_all (\<lambda>c. c \<in> set ''0123456789'') (py_str n)"
  using digits_py_str [of n]
  by (simp add: crc32_chunks_def foldl_crc32_concat read_chunks_crc32 checksum_file_crc32
      crc32_Nil decimal_value_py_str)

theorem checksum_chunking_independent_witness:
  "crc32_chunks [[49, 50], [], [51]] = 2286445522
   \<and> crc32_chunks [[49, 50, 51]] = 2286445522
   \<and> fst (read_chunks 2 [49, 50, 51] 0 0) = 2286445522
   \<and> checksum_file (Some Logger) (Some [49, 50, 51]) = Inr ''2286445522''
   \<and> decimal_value ''2286445522'' = 2286445522"
proof -
  have whole: "crc32_chunks [[49, 50, 51]] = 2286445522"
    by (simp add: crc32_chunks_def crc32_bytes123)
  have str: "py_str 2286445522 = ''2286445522''"
    by (simp add: py_str.simps)
  from checksum_chunking_independent [of "[[49, 50], [], [51]]" 2 2286445522] whole str
  show ?thesis by simp
qed

subsection \<open>The save policy\<close>

text \<open>
  Claim C8. Before epoch \<open>skip_epochs\<close>, \<open>save_check\<close> returns \<open>False\<close> and leaves the
  callback as it is, whatever \<open>logs\<close> holds and whatever \<open>save_best_only\<close> is. Then
  \<open>on_epoch_end\<close> returns at once: it has made sure that the work directory exists and
  writes nothing else, so \<open>good\<close> and \<open>old\<close> are as before.
\<close>

theorem save_check_skip_epochs:
  assumes "skip_epochs self = PInt n" and "epoch < n"
  shows "save_check self logs epoch = Inr (False, self)
         \<and> on_epoch_end self epoch logs now s =
             ([s, if s ckpt_work = None then makedirs ckpt_work s else s], Inr self)
         \<and> last (fst (on_epoch_end self epoch logs now s)) ckpt_good = s ckpt_good
         \<and> last (fst (on_epoch_end self epoch logs now s)) ckpt_old = s ckpt_old"
proof -
  have sc: "save_check self logs epoch = Inr (False, self)"
    using assms by (simp add: save_check_def)
  then show ?thesis
    by (simp add: on_epoch_end_def makedirs_def)
qed

theorem save_check_skip_epochs_witness:
  "skip_epochs (new_callback [(''skip_epochs'', PInt 2)] []) = PInt 2
   \<and> save_check (new_callback [(''skip_epochs'', PInt 2)] []) [] 1 =
       Inr (False, new_callback [(''skip_epochs'', PInt 2)] [])
   \<and> fst (on_epoch_end (new_callback [(''skip_epochs'', PInt 2)] []) 1 []
             (''2020-01-01 00:00:00'', 0) (\<lambda>d. None)) =
       [\<lambda>d. None, makedirs ckpt_work (\<lambda>d. None)]"
proof -
  have h: "skip_epochs (new_callback [(''skip_epochs'', PInt 2)] []) = PInt 2"
    by (simp add: new_callback_fields param_def)
  have l: "(1::int) < 2" by simp
  from save_check_skip_epochs [OF h l, of "[]" "(''2020-01-01 00:00:00'', 0)" "\<lambda>d. None"] h
  show ?thesis by simp
qed

text \<open>
  Claim C4. From epoch \<open>skip_epochs\<close> on, with \<open>save_best_only\<close> true, a tracked
  statistic that is not a key of \<open>logs\<close> makes \<open>save_check\<close> raise the exception whose
  message names the statistic and the keys of \<open>logs\<close>; it does not return.
\<close>

theorem save_check_missing_stat:
  assumes "skip_epochs self = PInt n" and "n \<le> epoch"
    and "truthy (save_best_only self)"
    and "save_best_stat self = PStr stat" and "stat \<notin> set (map fst logs)"
  shows "save_check self logs epoch =
           Inl (Exception_save_best_stat (PStr stat) (map fst logs))"
proof -
  have "map_of logs stat = None"
    using assms(5) by (simp add: map_of_eq_None_iff)
  then show ?thesis
    using assms(1-4) by (simp add: save_check_def)
qed

theorem save_check_missing_stat_witness:
  "save_check (new_callback [(''save_best_only'', PBool True)] [])
     [(''acc'', PFloat (Finite 1))] 0 =
   Inl (Exception_save_best_stat (PStr ''loss'') [''acc''])"
proof -
  let ?self = "new_callback [(''save_best_only'', PBool True)] []"
  have h1: "skip_epochs ?self = PInt 0" and h2: "truthy (save_best_only ?self)"
    and h3: "save_best_stat ?self = PStr ''loss''"
    by (simp_all add: new_callback_fields param_def)
  have h0: "(0::int) \<le> 0" by simp
  have h4: "''loss'' \<notin> set (map fst [(''acc'', PFloat (Finite 1))])" by simp
  from save_check_missing_stat [OF h1 h0 h2 h3 h4] show ?thesis by simp
qed

text \<open>
  Claim C2. With \<open>save_best_only\<close> true, at an epoch from \<open>skip_epochs\<close> on whose logs
  hold the tracked metric, \<open>save_check\<close> returns \<open>True\<close> exactly when the metric is
  strictly less than \<open>best_stat_last\<close>; it then stores the metric as the new
  \<open>best_stat_last\<close>, and on a tie or a larger value it returns \<open>False\<close> and changes
  nothing. Over a sequence of such epochs, from the initial \<open>best_stat_last\<close> of positive
  infinity, the decisions are those of \<open>spec_should_save\<close>, and \<open>best_stat_last\<close> ends as
  the minimum of the accepted values.
\<close>

theorem save_check_best_only:
  assumes "skip_epochs self = PInt n" and "truthy (save_best_only self)"
  shows "(\<forall>epoch logs x b.
            n \<le> epoch \<and> py_get logs (save_best_stat self) = Some (PFloat x) \<longrightarrow>
            save_check (self\<lparr>best_stat_last := PFloat b\<rparr>) logs epoch =
              Inr (float_lt x b,
                   self\<lparr>best_stat_last := PFloat (if float_lt x b then x else b)\<rparr>))
       \<and> (\<forall>inputs xs.
            list_all2 (\<lambda>(epoch, logs) x.
              n \<le> epoch \<and> py_get logs (save_best_stat self) = Some (PFloat x)) inputs xs \<longrightarrow>
            save_checks (self\<lparr>best_stat_last := PFloat PosInf\<rparr>) inputs =
              Inr (fst (spec_should_save [] xs),
                   self\<lparr>best_stat_last :=
                     PFloat (spec_minimum (snd (spec_should_save [] xs)))\<rparr>))
       \<and> (map_of gParameters ''best_stat_last'' = None \<longrightarrow>
            best_stat_last (new_callback gParameters m) = PFloat PosInf)"
proof (intro conjI allI impI)
  fix epoch logs x b
  assume "n \<le> epoch \<and> py_get logs (save_best_stat self) = Some (PFloat x)"
  then show "save_check (self\<lparr>best_stat_last := PFloat b\<rparr>) logs epoch =
      Inr (float_lt x b, self\<lparr>best_stat_last := PFloat (if float_lt x b then x else b)\<rparr>)"
    using save_check_step [OF assms] by blast
next
  fix inputs xs
  assume "list_all2 (\<lambda>(epoch, logs) x.
              n \<le> epoch \<and> py_get logs (save_best_stat self) = Some (PFloat x)) inputs xs"
  from save_checks_spec [OF assms this, of "[]"]
  show "save_checks (self\<lparr>best_stat_last := PFloat PosInf\<rparr>) inputs =
      Inr (fst (spec_should_save [] xs),
           self\<lparr>best_stat_last := PFloat (spec_minimum (snd (spec_should_save [] xs)))\<rparr>)"
    by (simp add: spec_minimum_Nil)
next
  assume "map_of gParameters ''best_stat_last'' = None"
  then show "best_stat_last (new_callback gParameters m) = PFloat PosInf"
    by (simp add: new_callback_def init_callback_def scan_params_def param_def)
qed

theorem save_check_best_only_witness:
  "save_checks (new_callback [(''save_best_only'', PBool True)] [])
     [(0, [(''loss'', PFloat (Finite 3))]),
      (1, [(''loss'', PFloat (Finite 3))]),
      (2, [(''loss'', PFloat (Finite 2))]),
      (3, [(''loss'', PFloat NaN)])] =
   Inr ([True, False, True, False],
        (new_callback [(''save_best_only'', PBool True)] [])
          \<lparr>best_stat_last := PFloat (Finite 2)\<rparr>)"
proof -
  let ?self = "new_callback [(''save_best_only'', PBool True)] []"
  have h1: "skip_epochs ?self = PInt 0" and h2: "truthy (save_best_only ?self)"
    and h3: "save_best_stat ?self = PStr ''loss''"
    and h4: "?self\<lparr>best_stat_last := PFloat PosInf\<rparr> = ?self"
    by (simp_all add: new_callback_fields param_def)
  have la: "list_all2 (\<lambda>(epoch, logs) x.
          (0::int) \<le> epoch \<and> py_get logs (save_best_stat ?self) = Some (PFloat x))
          [(0, [(''loss'', PFloat (Finite 3))]),
           (1, [(''loss'', PFloat (Finite 3))]),
           (2, [(''loss'', PFloat (Finite 2))]),
           (3, [(''loss'', PFloat NaN)])]
          [Finite 3, Finite 3, Finite 2, NaN]"
    by (simp add: h3)
  from save_check_best_only [OF h1 h2, of "[]" "[]", THEN conjunct2, THEN conjunct1,
      rule_format, OF la]
  show ?thesis
    by (simp add: h4 spec_minimum_def float_min_def)
qed

subsection \<open>Restarting\<close>




text \<open>
  Claim C10. \<open>disabled\<close> is true only of a key whose value is falsy. A \<open>restart\<close>
  entry with a truthy value, the string \<^verbatim>\<open>"OFF"\<close> among them, does not disable the
  restart: \<open>restart\<close> goes on to \<open>good\<close> and loads the snapshot it finds there.
\<close>

theorem restart_OFF_still_restarts:
  assumes "map_of g ''restart'' = Some v" and "truthy v"
  shows "truthy (PStr ''OFF'')
     \<and> \<not> disabled g ''restart''
     \<and> (file_model_h5 s ckpt_good = Some weights
        \<and> file_ckpt_info_json s ckpt_good = Some (JObject J)
        \<and> (disabled g ''checksum'' \<or>
             (checksum_file (Some Logger) (Some weights) = Inr c \<and> map_of J ''checksum'' = Some (PStr c)))
        \<and> map_of J ''epoch'' = Some (PInt e) \<and> map_of J ''timestamp'' = Some t \<longrightarrow>
        restart g m s = Inr (Some J, weights))
     \<and> (disabled g' ''restart'' \<longrightarrow> (\<exists>v'. map_of g' ''restart'' = Some v' \<and> \<not> truthy v'))"
proof -
  have nd: "\<not> disabled g ''restart''"
    using assms by (simp add: disabled_def)
  have "restart g m s = Inr (Some J, weights)"
    if "file_model_h5 s ckpt_good = Some weights
        \<and> file_ckpt_info_json s ckpt_good = Some (JObject J)
        \<and> (disabled g ''checksum'' \<or>
             (checksum_file (Some Logger) (Some weights) = Inr c \<and> map_of J ''checksum'' = Some (PStr c)))
        \<and> map_of J ''epoch'' = Some (PInt e) \<and> map_of J ''timestamp'' = Some t"
    using that nd by (intro restart_loads [where c = c and e = e and t = t]) simp_all
  moreover have "disabled g' ''restart'' \<longrightarrow>
      (\<exists>v'. map_of g' ''restart'' = Some v' \<and> \<not> truthy v')"
    by (simp add: disabled_def split: option.split)
  ultimately show ?thesis using nd by simp
qed

theorem restart_OFF_still_restarts_witness:
  "restart [(''restart'', PStr ''OFF'')] [7]
     ((\<lambda>d. None)(ckpt_good \<mapsto>
        \<lparr>model_h5 = Some [1],
         ckpt_info_json = Some (JObject [(''epoch'', PInt 3),
           (''checksum'', PStr ''2768625435''),
           (''timestamp'', PStr ''2020-01-01 00:00:00'')])\<rparr>)) =
   Inr (Some [(''epoch'', PInt 3), (''checksum'', PStr ''2768625435''),
              (''timestamp'', PStr ''2020-01-01 00:00:00'')], [1])
   \<and> \<not> disabled [(''restart'', PStr ''OFF'')] ''restart''"
proof -
  let ?g = "[(''restart'', PStr ''OFF'')]"
  let ?J = "[(''epoch'', PInt 3), (''checksum'', PStr ''2768625435''),
             (''timestamp'', PStr ''2020-01-01 00:00:00'')]"
  let ?s = "(\<lambda>d. None)(ckpt_good \<mapsto>
        \<lparr>model_h5 = Some [1], ckpt_info_json = Some (JObject ?J)\<rparr>)"
  have h1: "map_of ?g ''restart'' = Some (PStr ''OFF'')" by simp
  have h2: "truthy (PStr ''OFF'')" by simp
  from restart_OFF_still_restarts [OF h1 h2, of ?s "[1]" ?J "''2768625435''" 3
      "PStr ''2020-01-01 00:00:00''" "[7]"]
  show ?thesis
    by (simp add: file_model_h5_def file_ckpt_info_json_def checksum_file_byte1)
qed

text \<open>
  Claim C3, at a failing input. The descriptor records the checksum of the one-byte file
  \<open>[0]\<close>, the weights file holds \<open>[1]\<close>, and checksumming is not disabled. Neither
  \<open>restart_json\<close> nor \<open>restart\<close> returns, so nothing is loaded, but the exception that
  leaves them is the \<^verbatim>\<open>TypeError\<close> of the message's formatting, not the
  checksum-mismatch \<^verbatim>\<open>Exception\<close> of line 303.
\<close>

theorem restart_json_checksum_mismatch:
  "restart_json [] (Some Logger) ckpt_good
     ((\<lambda>d. None)(ckpt_good \<mapsto>
        \<lparr>model_h5 = Some [1],
         ckpt_info_json = Some (JObject [(''epoch'', PInt 3),
           (''checksum'', PStr ''3523407757''),
           (''timestamp'', PStr ''2020-01-01 00:00:00'')])\<rparr>)) = Inl TypeError
   \<and> restart [] [7]
     ((\<lambda>d. None)(ckpt_good \<mapsto>
        \<lparr>model_h5 = Some [1],
         ckpt_info_json = Some (JObject [(''epoch'', PInt 3),
           (''checksum'', PStr ''3523407757''),
           (''timestamp'', PStr ''2020-01-01 00:00:00'')])\<rparr>)) = Inl TypeError
   \<and> checksum_file (Some Logger) (Some [0]) = Inr ''3523407757''
   \<and> checksum_file (Some Logger) (Some [1]) = Inr ''2768625435''"
  by (simp add: restart_def restart_json_def disabled_def file_model_h5_def
      file_ckpt_info_json_def checksum_file_byte0 checksum_file_byte1)

text \<open>
  Claim C6, at a failing input. \<open>good\<close> holds the weights and no descriptor. With
  \<open>require_json\<close> absent the \<^verbatim>\<open>Exception\<close> of line 295 is raised. With \<open>require_json\<close>
  set to \<^verbatim>\<open>False\<close> that \<^verbatim>\<open>raise\<close> is skipped, and \<^verbatim>\<open>open(json_file)\<close> on the next
  line raises \<^verbatim>\<open>FileNotFoundError\<close>: the weights are not loaded.
\<close>

theorem restart_json_descriptor_missing:
  "restart_json [(''require_json'', PBool False)] (Some Logger) ckpt_good
     ((\<lambda>d. None)(ckpt_good \<mapsto> \<lparr>model_h5 = Some [1], ckpt_info_json = None\<rparr>)) =
     Inl FileNotFoundError
   \<and> restart [(''require_json'', PBool False)] [7]
     ((\<lambda>d. None)(ckpt_good \<mapsto> \<lparr>model_h5 = Some [1], ckpt_info_json = None\<rparr>)) =
     Inl FileNotFoundError
   \<and> restart_json [] (Some Logger) ckpt_good
     ((\<lambda>d. None)(ckpt_good \<mapsto> \<lparr>model_h5 = Some [1], ckpt_info_json = None\<rparr>)) =
     Inl Exception_no_json"
  by (simp add: restart_def restart_json_def disabled_def file_model_h5_def
      file_ckpt_info_json_def)

subsection \<open>The rotation of the snapshot directories\<close>

text \<open>
  Claim C1, as the code has it. For an epoch that is saved, \<open>on_epoch_end\<close> goes through
  eight states of the file system: the initial one, the work directory ensured, the
  weights written, the descriptor written, a pre-existing \<open>old\<close> deleted, \<open>good\<close>
  renamed to \<open>old\<close>, \<open>work\<close> renamed to \<open>good\<close>, and \<open>old\<close> cleaned when \<open>clean\<close>
  is set and there was a \<open>good\<close> to displace. The theorem lists the three directories
  state by state. \<open>work\<close> is filled first and is complete, weights and matching
  descriptor for this epoch, before anything else moves; after the second rename it is
  gone and \<open>good\<close> is what \<open>work\<close> was. \<open>good\<close> is the previous snapshot five times,
  then absent once (between the two renames, when the previous snapshot is in \<open>old\<close>),
  then the new snapshot: it is never a directory half written. From the state right
  after the second rename, and from the last one, a restart under the same checksum
  setting loads the new snapshot.
\<close>

theorem rotation_keeps_snapshot:
  assumes run: "on_epoch_end self epoch logs now s = (tr, Inr self')"
    and save: "save_check self logs epoch = Inr (True, self1)"
  shows "\<exists>J. map (\<lambda>s'. s' ckpt_good) tr =
           [s ckpt_good, s ckpt_good, s ckpt_good, s ckpt_good, s ckpt_good, None,
            Some \<lparr>model_h5 = Some (model self), ckpt_info_json = Some (JObject J)\<rparr>,
            Some \<lparr>model_h5 = Some (model self), ckpt_info_json = Some (JObject J)\<rparr>]
         \<and> map (\<lambda>s'. s' ckpt_old) tr =
           [s ckpt_old, s ckpt_old, s ckpt_old, s ckpt_old, None, s ckpt_good, s ckpt_good,
            if truthy (clean self) then None else s ckpt_good]
         \<and> map (\<lambda>s'. s' ckpt_work) tr =
           [s ckpt_work,
            Some (case s ckpt_work of
                    None \<Rightarrow> \<lparr>model_h5 = None, ckpt_info_json = None\<rparr> | Some c \<Rightarrow> c),
            Some ((case s ckpt_work of
                    None \<Rightarrow> \<lparr>model_h5 = None, ckpt_info_json = None\<rparr> | Some c \<Rightarrow> c)
                  \<lparr>model_h5 := Some (model self)\<rparr>),
            Some \<lparr>model_h5 = Some (model self), ckpt_info_json = Some (JObject J)\<rparr>,
            Some \<lparr>model_h5 = Some (model self), ckpt_info_json = Some (JObject J)\<rparr>,
            Some \<lparr>model_h5 = Some (model self), ckpt_info_json = Some (JObject J)\<rparr>,
            None, None]
         \<and> descriptor_matches (checksum_enabled self) (model self) J
         \<and> map_of J ''epoch'' = Some (PInt epoch)
         \<and> (\<not> disabled g ''restart''
              \<and> checksum_enabled self = param g ''checksum'' (PBool True) \<longrightarrow>
              restart g m (tr ! 6) = Inr (Some J, model self)
              \<and> restart g m (last tr) = Inr (Some J, model self))"
proof -
  let ?s1 = "if s ckpt_work = None then makedirs ckpt_work s else s"
  from run save obtain wtr where
    wm: "write_model self1 ckpt_work epoch now ?s1 = (wtr, Inr self')"
    and tr: "tr = s # ?s1 # wtr @ rotate_dirs self' (last wtr)"
    by (auto simp: on_epoch_end_def Let_def split: prod.splits sum.splits)
  from save_check_fields [OF save] have f: "model self1 = model self"
    "checksum_enabled self1 = checksum_enabled self" "clean self1 = clean self"
    by simp_all
  from write_model_Inr [OF wm] f obtain c J where
    c: "?s1 ckpt_work = Some c"
    and wtr: "wtr = [?s1(ckpt_work \<mapsto> c\<lparr>model_h5 := Some (model self)\<rparr>),
                   ?s1(ckpt_work \<mapsto> \<lparr>model_h5 = Some (model self),
                            ckpt_info_json = Some (JObject J)\<rparr>)]"
    and dm: "descriptor_matches (checksum_enabled self) (model self) J"
    and ep: "map_of J ''epoch'' = Some (PInt epoch)"
    and ts: "map_of J ''timestamp'' = Some (PStr (fst now))"
    and cl: "clean self' = clean self"
    by auto
  have s1: "?s1 ckpt_good = s ckpt_good" "?s1 ckpt_old = s ckpt_old"
    by (simp_all add: makedirs_def)
  let ?new = "Some \<lparr>model_h5 = Some (model self), ckpt_info_json = Some (JObject J)\<rparr>"
  have goods: "map (\<lambda>s'. s' ckpt_good) tr =
           [s ckpt_good, s ckpt_good, s ckpt_good, s ckpt_good, s ckpt_good, None, ?new, ?new]"
    unfolding tr wtr rotate_dirs_states using s1 by simp
  have olds: "map (\<lambda>s'. s' ckpt_old) tr =
           [s ckpt_old, s ckpt_old, s ckpt_old, s ckpt_old, None, s ckpt_good, s ckpt_good,
            if truthy (clean self) then None else s ckpt_good]"
    unfolding tr wtr rotate_dirs_states using s1 cl by simp
  have c': "c = (case s ckpt_work of
                   None \<Rightarrow> \<lparr>model_h5 = None, ckpt_info_json = None\<rparr> | Some c \<Rightarrow> c)"
    using c by (cases "s ckpt_work") (simp_all add: makedirs_def)
  have s1w: "?s1 ckpt_work = Some c"
    by (rule c)
  have works: "map (\<lambda>s'. s' ckpt_work) tr =
           [s ckpt_work, Some c, Some (c\<lparr>model_h5 := Some (model self)\<rparr>),
            ?new, ?new, ?new, None, None]"
    unfolding tr wtr rotate_dirs_states using s1w by simp
  have g6: "(tr ! 6) ckpt_good = ?new" and g7: "(last tr) ckpt_good = ?new"
    unfolding tr wtr rotate_dirs_states by simp_all
  have restarts: "restart g m s' = Inr (Some J, model self)"
    if nd: "\<not> disabled g ''restart''"
      and ce: "checksum_enabled self = param g ''checksum'' (PBool True)"
      and good: "s' ckpt_good = ?new" for s'
  proof (rule restart_loads [OF nd _ _ _ ep ts])
    show "file_model_h5 s' ckpt_good = Some (model self)"
      by (simp add: file_model_h5_def good)
    show "file_ckpt_info_json s' ckpt_good = Some (JObject J)"
      by (simp add: file_ckpt_info_json_def good)
    show "disabled g ''checksum'' \<or>
        checksum_file (Some Logger) (Some (model self)) = Inr (py_str (unat (crc32 (model self) 0))) \<and>
        map_of J ''checksum'' = Some (PStr (py_str (unat (crc32 (model self) 0))))"
      using dm ce truthy_param_checksum [of g "''checksum''"]
      by (auto simp: descriptor_matches_def checksum_file_crc32)
  qed
  have r6: "restart g m (tr ! 6) = Inr (Some J, model self)"
    and r7: "restart g m (last tr) = Inr (Some J, model self)"
    if "\<not> disabled g ''restart''"
      and "checksum_enabled self = param g ''checksum'' (PBool True)"
    using that g6 g7 by (simp_all add: restarts)
  show ?thesis
    using goods olds works [unfolded c'] dm ep r6 r7
    by (intro exI [of _ J]) simp
qed


theorem rotation_keeps_snapshot_witness:
  "\<exists>J. map (\<lambda>s'. s' ckpt_good)
         (fst (on_epoch_end (new_callback [(''clean'', PBool True)] [1]) 4
            [(''loss'', PFloat (Finite 1))] (''2020-01-02 00:00:00'', 86400)
            ((\<lambda>d. None)
               (ckpt_good \<mapsto>
                  \<lparr>model_h5 = Some [0],
                   ckpt_info_json = Some (JObject [(''epoch'', PInt 3),
                     (''checksum'', PStr ''3523407757''),
                     (''timestamp'', PStr ''2020-01-01 00:00:00'')])\<rparr>,
                ckpt_old \<mapsto>
                  \<lparr>model_h5 = Some [2],
                   ckpt_info_json = Some (JObject [(''epoch'', PInt 2),
                     (''checksum'', PStr ''__DISABLED__''),
                     (''timestamp'', PStr ''2019-12-31 00:00:00'')])\<rparr>)))) =
         [Some \<lparr>model_h5 = Some [0],
                ckpt_info_json = Some (JObject [(''epoch'', PInt 3),
                  (''checksum'', PStr ''3523407757''),
                  (''timestamp'', PStr ''2020-01-01 00:00:00'')])\<rparr>,
          Some \<lparr>model_h5 = Some [0],
                ckpt_info_json = Some (JObject [(''epoch'', PInt 3),
                  (''checksum'', PStr ''3523407757''),
                  (''timestamp'', PStr ''2020-01-01 00:00:00'')])\<rparr>,
          Some \<lparr>model_h5 = Some [0],
                ckpt_info_json = Some (JObject [(''epoch'', PInt 3),
                  (''checksum'', PStr ''3523407757''),
                  (''timestamp'', PStr ''2020-01-01 00:00:00'')])\<rparr>,
          Some \<lparr>model_h5 = Some [0],
                ckpt_info_json = Some (JObject [(''epoch'', PInt 3),
                  (''checksum'', PStr ''3523407757''),
                  (''timestamp'', PStr ''2020-01-01 00:00:00'')])\<rparr>,
          Some \<lparr>model_h5 = Some [0],
                ckpt_info_json = Some (JObject [(''epoch'', PInt 3),
                  (''checksum'', PStr ''3523407757''),
                  (''timestamp'', PStr ''2020-01-01 00:00:00'')])\<rparr>,
          None,
          Some \<lparr>model_h5 = Some [1], ckpt_info_json = Some (JObject J)\<rparr>,
          Some \<lparr>model_h5 = Some [1], ckpt_info_json = Some (JObject J)\<rparr>]
     \<and> map (\<lambda>s'. s' ckpt_old)
         (fst (on_epoch_end (new_callback [(''clean'', PBool True)] [1]) 4
            [(''loss'', PFloat (Finite 1))] (''2020-01-02 00:00:00'', 86400)
            ((\<lambda>d. None)
               (ckpt_good \<mapsto>
                  \<lparr>model_h5 = Some [0],
                   ckpt_info_json = Some (JObject [(''epoch'', PInt 3),
                     (''checksum'', PStr ''3523407757''),
                     (''timestamp'', PStr ''2020-01-01 00:00:00'')])\<rparr>,
                ckpt_old \<mapsto>
                  \<lparr>model_h5 = Some [2],
                   ckpt_info_json = Some (JObject [(''epoch'', PInt 2),
                     (''checksum'', PStr ''__DISABLED__''),
                     (''timestamp'', PStr ''2019-12-31 00:00:00'')])\<rparr>)))) =
         [Some \<lparr>model_h5 = Some [2],
                ckpt_info_json = Some (JObject [(''epoch'', PInt 2),
                  (''checksum'', PStr ''__DISABLED__''),
                  (''timestamp'', PStr ''2019-12-31 00:00:00'')])\<rparr>,
          Some \<lparr>model_h5 = Some [2],
                ckpt_info_json = Some (JObject [(''epoch'', PInt 2),
                  (''checksum'', PStr ''__DISABLED__''),
                  (''timestamp'', PStr ''2019-12-31 00:00:00'')])\<rparr>,
          Some \<lparr>model_h5 = Some [2],
                ckpt_info_json = Some (JObject [(''epoch'', PInt 2),
                  (''checksum'', PStr ''__DISABLED__''),
                  (''timestamp'', PStr ''2019-12-31 00:00:00'')])\<rparr>,
          Some \<lparr>model_h5 = Some [2],
                ckpt_info_json = Some (JObject [(''epoch'', PInt 2),
                  (''checksum'', PStr ''__DISABLED__''),
                  (''timestamp'', PStr ''2019-12-31 00:00:00'')])\<rparr>,
          None,
          Some \<lparr>model_h5 = Some [0],
                ckpt_info_json = Some (JObject [(''epoch'', PInt 3),
                  (''checksum'', PStr ''3523407757''),
                  (''timestamp'', PStr ''2020-01-01 00:00:00'')])\<rparr>,
          Some \<lparr>model_h5 = Some [0],
                ckpt_info_json = Some (JObject [(''epoch'', PInt 3),
                  (''checksum'', PStr ''3523407757''),
                  (''timestamp'', PStr ''2020-01-01 00:00:00'')])\<rparr>,
          None]
     \<and> map (\<lambda>s'. s' ckpt_work)
         (fst (on_epoch_end (new_callback [(''clean'', PBool True)] [1]) 4
            [(''loss'', PFloat (Finite 1))] (''2020-01-02 00:00:00'', 86400)
            ((\<lambda>d. None)
               (ckpt_good \<mapsto>
                  \<lparr>model_h5 = Some [0],
                   ckpt_info_json = Some (JObject [(''epoch'', PInt 3),
                     (''checksum'', PStr ''3523407757''),
                     (''timestamp'', PStr ''2020-01-01 00:00:00'')])\<rparr>,
                ckpt_old \<mapsto>
                  \<lparr>model_h5 = Some [2],
                   ckpt_info_json = Some (JObject [(''epoch'', PInt 2),
                     (''checksum'', PStr ''__DISABLED__''),
                     (''timestamp'', PStr ''2019-12-31 00:00:00'')])\<rparr>)))) =
         [None,
          Some \<lparr>model_h5 = None, ckpt_info_json = None\<rparr>,
          Some \<lparr>model_h5 = Some [1], ckpt_info_json = None\<rparr>,
          Some \<lparr>model_h5 = Some [1], ckpt_info_json = Some (JObject J)\<rparr>,
          Some \<lparr>model_h5 = Some [1], ckpt_info_json = Some (JObject J)\<rparr>,
          Some \<lparr>model_h5 = Some [1], ckpt_info_json = Some (JObject J)\<rparr>,
          None, None]
     \<and> restart [(''clean'', PBool True)] [7]
         (fst (on_epoch_end (new_callback [(''clean'', PBool True)] [1]) 4
            [(''loss'', PFloat (Finite 1))] (''2020-01-02 00:00:00'', 86400)
            ((\<lambda>d. None)
               (ckpt_good \<mapsto>
                  \<lparr>model_h5 = Some [0],
                   ckpt_info_json = Some (JObject [(''epoch'', PInt 3),
                     (''checksum'', PStr ''3523407757''),
                     (''timestamp'', PStr ''2020-01-01 00:00:00'')])\<rparr>,
                ckpt_old \<mapsto>
                  \<lparr>model_h5 = Some [2],
                   ckpt_info_json = Some (JObject [(''epoch'', PInt 2),
                     (''checksum'', PStr ''__DISABLED__''),
                     (''timestamp'', PStr ''2019-12-31 00:00:00'')])\<rparr>))) ! 6) =
         Inr (Some J, [1])
     \<and> map_of J ''epoch'' = Some (PInt 4)
     \<and> map_of J ''checksum'' = Some (PStr ''2768625435'')"
proof -
  let ?g = "[(''clean'', PBool True)]"
  let ?self = "new_callback ?g [1]"
  let ?s = "(\<lambda>d. None)
               (ckpt_good \<mapsto>
                  \<lparr>model_h5 = Some [0],
                   ckpt_info_json = Some (JObject [(''epoch'', PInt 3),
                     (''checksum'', PStr ''3523407757''),
                     (''timestamp'', PStr ''2020-01-01 00:00:00'')])\<rparr>,
                ckpt_old \<mapsto>
                  \<lparr>model_h5 = Some [2],
                   ckpt_info_json = Some (JObject [(''epoch'', PInt 2),
                     (''checksum'', PStr ''__DISABLED__''),
                     (''timestamp'', PStr ''2019-12-31 00:00:00'')])\<rparr>)"
  let ?run = "on_epoch_end ?self 4 [(''loss'', PFloat (Finite 1))]
                (''2020-01-02 00:00:00'', 86400) ?s"
  have run: "?run = (fst ?run, Inr (?self
            \<lparr>timestamp_last := PDatetime ''2020-01-02 00:00:00'' 86400,
             cksum_model := Some ''2768625435''\<rparr>))"
    using on_epoch_end_example by (cases ?run) simp
  have save: "save_check ?self [(''loss'', PFloat (Finite 1))] 4 = Inr (True, ?self)"
    by (rule clean_callback_save_check)
  have nd: "\<not> disabled ?g ''restart''"
    and ce: "checksum_enabled ?self = param ?g ''checksum'' (PBool True)"
    and cl: "truthy (clean ?self)" and m: "model ?self = [1]"
    by (simp_all add: disabled_def new_callback_fields param_def)
  from rotation_keeps_snapshot [OF run save, of ?g "[7]"] show ?thesis
  proof (elim exE conjE)
    fix J
    assume goods: "map (\<lambda>s'. s' ckpt_good) (fst ?run) =
       [?s ckpt_good, ?s ckpt_good, ?s ckpt_good, ?s ckpt_good, ?s ckpt_good, None,
        Some \<lparr>model_h5 = Some (model ?self), ckpt_info_json = Some (JObject J)\<rparr>,
        Some \<lparr>model_h5 = Some (model ?self), ckpt_info_json = Some (JObject J)\<rparr>]"
    and olds: "map (\<lambda>s'. s' ckpt_old) (fst ?run) =
       [?s ckpt_old, ?s ckpt_old, ?s ckpt_old, ?s ckpt_old, None, ?s ckpt_good, ?s ckpt_good,
        if truthy (clean ?self) then None else ?s ckpt_good]"
    and works: "map (\<lambda>s'. s' ckpt_work) (fst ?run) =
       [?s ckpt_work,
        Some (case ?s ckpt_work of
                None \<Rightarrow> \<lparr>model_h5 = None, ckpt_info_json = None\<rparr> | Some c \<Rightarrow> c),
        Some ((case ?s ckpt_work of
                None \<Rightarrow> \<lparr>model_h5 = None, ckpt_info_json = None\<rparr> | Some c \<Rightarrow> c)
              \<lparr>model_h5 := Some (model ?self)\<rparr>),
        Some \<lparr>model_h5 = Some (model ?self), ckpt_info_json = Some (JObject J)\<rparr>,
        Some \<lparr>model_h5 = Some (model ?self), ckpt_info_json = Some (JObject J)\<rparr>,
        Some \<lparr>model_h5 = Some (model ?self), ckpt_info_json = Some (JObject J)\<rparr>,
        None, None]"
    and dm: "descriptor_matches (checksum_enabled ?self) (model ?self) J"
    and ep: "map_of J ''epoch'' = Some (PInt 4)"
    and rs: "\<not> disabled ?g ''restart''
              \<and> checksum_enabled ?self = param ?g ''checksum'' (PBool True) \<longrightarrow>
             restart ?g [7] (fst ?run ! 6) = Inr (Some J, model ?self)
             \<and> restart ?g [7] (last (fst ?run)) = Inr (Some J, model ?self)"
    have r6: "restart ?g [7] (fst ?run ! 6) = Inr (Some J, [1])"
      using rs nd ce m by simp
    have ck: "map_of J ''checksum'' = Some (PStr ''2768625435'')"
      using dm by (simp add: descriptor_matches_def new_callback_fields param_def
          checksum_file_byte1)
    show ?thesis
      using goods olds works r6 ep ck cl m
      by (intro exI [of _ J]) simp
  qed
qed

text \<open>
  The claim as the specification states it says that \<open>good\<close> is missing at no point.
  With a snapshot of epoch 3 in \<open>good\<close>, which a restart loads, the state that
  \<open>on_epoch_end\<close> reaches after renaming \<open>good\<close> to \<open>old\<close> has no \<open>good\<close>, and a restart
  from it returns \<open>None\<close>.
\<close>

theorem rotation_good_missing_counterexample:
  "restart [] [7]
     ((\<lambda>d. None)(ckpt_good \<mapsto>
        \<lparr>model_h5 = Some [0],
         ckpt_info_json = Some (JObject [(''epoch'', PInt 3),
           (''checksum'', PStr ''3523407757''),
           (''timestamp'', PStr ''2020-01-01 00:00:00'')])\<rparr>)) =
   Inr (Some [(''epoch'', PInt 3), (''checksum'', PStr ''3523407757''),
              (''timestamp'', PStr ''2020-01-01 00:00:00'')], [0])
   \<and> (fst (on_epoch_end (new_callback [] [1]) 4 [] (''2020-01-02 00:00:00'', 86400)
        ((\<lambda>d. None)(ckpt_good \<mapsto>
        \<lparr>model_h5 = Some [0],
         ckpt_info_json = Some (JObject [(''epoch'', PInt 3),
           (''checksum'', PStr ''3523407757''),
           (''timestamp'', PStr ''2020-01-01 00:00:00'')])\<rparr>))) ! 5) ckpt_good = None
   \<and> restart [] [7]
       (fst (on_epoch_end (new_callback [] [1]) 4 [] (''2020-01-02 00:00:00'', 86400)
        ((\<lambda>d. None)(ckpt_good \<mapsto>
        \<lparr>model_h5 = Some [0],
         ckpt_info_json = Some (JObject [(''epoch'', PInt 3),
           (''checksum'', PStr ''3523407757''),
           (''timestamp'', PStr ''2020-01-01 00:00:00'')])\<rparr>))) ! 5) = Inr (None, [7])"
  by (simp add: on_epoch_end_def new_callback_save_check write_model_def checksum_def
      write_json_def new_callback_fields param_def makedirs_def checksum_file_byte1
      Let_def rotate_dirs_states restart_def restart_json_def disabled_def
      file_model_h5_def file_ckpt_info_json_def checksum_file_byte0)

end
